theory Spec2Isabelle
  imports Main "HOL-Library.Sublist"
begin

section \<open>Python values, dictionaries and exceptions\<close>

text \<open>
  The operator (\<^verbatim>\<open>src/operator/operator.py\<close>) reads the ports of a Service as
  Python dictionaries. A dictionary value is \<^verbatim>\<open>None\<close>, an integer or a string; a
  dictionary is an association list in insertion order, looked up with \<open>map_of\<close>.
\<close>

datatype pyval = PNone | PInt int | PStr string

type_synonym pydict = "(string \<times> pyval) list"

text \<open>
  The exceptions of the program. \<open>ApiException status text\<close> is the Kubernetes client's
  exception with its HTTP status and its rendering \<^verbatim>\<open>str(e)\<close>;
  \<open>TemporaryError message delay\<close> is \<^verbatim>\<open>kopf.TemporaryError(message, delay=delay)\<close>;
  \<open>AttributeError a\<close> is the read of an attribute \<open>a\<close> the object does not have;
  \<open>OtherException\<close> is any exception that is not an instance of \<^verbatim>\<open>ApiException\<close>
  (a connection error of the HTTP layer, for instance).
\<close>

datatype exn =
    KeyError string
  | IndexError
  | ApiException int string
  | TemporaryError string int
  | AttributeError string
  | OtherException string

text \<open>\<^verbatim>\<open>d[k]\<close>: raises \<^verbatim>\<open>KeyError\<close> when the key is absent.\<close>

definition py_getitem :: "pydict \<Rightarrow> string \<Rightarrow> exn + pyval" where
  "py_getitem d k = (case map_of d k of None \<Rightarrow> Inl (KeyError k) | Some v \<Rightarrow> Inr v)"

text \<open>Truthiness, as \<^verbatim>\<open>or\<close> and \<^verbatim>\<open>not\<close> test it.\<close>

fun py_truthy :: "pyval \<Rightarrow> bool" where
  "py_truthy PNone = False"
| "py_truthy (PInt i) = (i \<noteq> 0)"
| "py_truthy (PStr s) = (s \<noteq> [])"

text \<open>\<^verbatim>\<open>str(v)\<close>: decimal digits for an integer.\<close>

fun str_nat :: "nat \<Rightarrow> string" where
  "str_nat n =
     (if n < 10 then [''0123456789'' ! n]
      else str_nat (n div 10) @ [''0123456789'' ! (n mod 10)])"

declare str_nat.simps [simp del]

definition str_int :: "int \<Rightarrow> string" where
  "str_int i = (if i < 0 then CHR ''-'' # str_nat (nat (- i)) else str_nat (nat i))"

fun py_str :: "pyval \<Rightarrow> string" where
  "py_str PNone = ''None''"
| "py_str (PInt i) = str_int i"
| "py_str (PStr s) = s"

text \<open>\<^verbatim>\<open>s.startswith(p)\<close>.\<close>

definition startswith :: "string \<Rightarrow> string \<Rightarrow> bool" where
  "startswith s p = prefix p s"

section \<open>Naming function and port selector\<close>

definition AUTO_INGRESS_ANNOTATION :: string where
  "AUTO_INGRESS_ANNOTATION = ''auto-ingress''"

definition INGRESS_CLASS_ANNOTATION :: string where
  "INGRESS_CLASS_ANNOTATION = ''traefik.ingress.kubernetes.io/router.entrypoints''"

definition INGRESS_CLASS_VALUE :: string where
  "INGRESS_CLASS_VALUE = ''web''"

text \<open>
  \<^verbatim>\<open>build_ingress_name\<close> (lines 10-11): the f-string renders the port name with
  \<^verbatim>\<open>str\<close>; the service name is the string the event carries.
\<close>

definition build_ingress_name :: "string \<Rightarrow> pyval \<Rightarrow> string" where
  "build_ingress_name service_name port_name =
     ''auto-ingress-'' @ service_name @ ''-'' @ py_str port_name"

text \<open>
  The family prefix \<^verbatim>\<open>ingress_name_prefix = f"auto-ingress-{name}"\<close> that both
  handlers compute (lines 72 and 113).
\<close>

definition ingress_name_prefix :: "string \<Rightarrow> string" where
  "ingress_name_prefix name = ''auto-ingress-'' @ name"

text \<open>
  \<^verbatim>\<open>find_http_port\<close> (lines 14-19) reads \<^verbatim>\<open>service.spec['ports']\<close> only, so the
  Service is the record of that entry: \<open>None\<close> when the spec has no \<^verbatim>\<open>'ports'\<close> key.
  \<open>scan_for_http\<close> is the \<^verbatim>\<open>for\<close> loop: \<open>Some port\<close> is its early return, \<open>None\<close>
  is falling out of the loop.
\<close>

record V1Service =
  service_ports :: "pydict list option"

fun scan_for_http :: "pydict list \<Rightarrow> exn + pydict option" where
  "scan_for_http [] = Inr None"
| "scan_for_http (port # rest) =
     (case py_getitem port ''name'' of
        Inl e \<Rightarrow> Inl e
      | Inr n \<Rightarrow> if n = PStr ''http'' then Inr (Some port) else scan_for_http rest)"

definition find_http_port :: "V1Service \<Rightarrow> exn + pydict option" where
  "find_http_port service =
     (case service_ports service of
        None \<Rightarrow> Inl (KeyError ''ports'')
      | Some ports \<Rightarrow>
          (case scan_for_http ports of
             Inl e \<Rightarrow> Inl e
           | Inr (Some port) \<Rightarrow> Inr (Some port)
           | Inr None \<Rightarrow> (case ports of [] \<Rightarrow> Inr None | p # _ \<Rightarrow> Inr (Some p))))"

section \<open>Desired-state builder\<close>

text \<open>
  The Kubernetes client's model classes, with the fields the operator sets or reads.
\<close>

record V1OwnerReference =
  ref_api_version :: string
  ref_kind :: string
  ref_name :: string
  ref_uid :: string
  ref_controller :: bool
  ref_block_owner_deletion :: bool

record V1ObjectMeta =
  meta_name :: string
  meta_namespace :: string
  meta_annotations :: "(string \<times> string) list"
  meta_owner_references :: "V1OwnerReference list"

record V1ServiceBackendPort =
  port_number :: pyval

record V1IngressServiceBackend =
  backend_service_name :: string
  backend_service_port :: V1ServiceBackendPort

record V1IngressBackend =
  backend_service :: V1IngressServiceBackend

record V1HTTPIngressPath =
  ingress_path :: string
  ingress_path_type :: string
  ingress_backend :: V1IngressBackend

record V1HTTPIngressRuleValue =
  http_paths :: "V1HTTPIngressPath list"

record V1IngressRule =
  rule_http :: V1HTTPIngressRuleValue

record V1IngressSpec =
  spec_rules :: "V1IngressRule list"

record V1Ingress =
  metadata :: V1ObjectMeta
  ingress_spec :: V1IngressSpec

text \<open>
  \<^verbatim>\<open>create_ingress_object\<close> (lines 22-63). The dictionary reads happen in the order
  of the source: \<^verbatim>\<open>port['name'] or str(port['port'])\<close> for the name, then
  \<^verbatim>\<open>port['targetPort'] or port['port']\<close> for the backend port; each can raise
  \<^verbatim>\<open>KeyError\<close>. The owner reference is built with an empty uid.
\<close>

definition create_ingress_object :: "string \<Rightarrow> string \<Rightarrow> string \<Rightarrow> pydict \<Rightarrow> exn + V1Ingress" where
  "create_ingress_object namespace service_name path port =
     (case py_getitem port ''name'' of
        Inl e \<Rightarrow> Inl e
      | Inr n \<Rightarrow>
          (case (if py_truthy n then Inr n
                 else (case py_getitem port ''port'' of
                         Inl e \<Rightarrow> Inl e
                       | Inr pn \<Rightarrow> Inr (PStr (py_str pn)))) of
             Inl e \<Rightarrow> Inl e
           | Inr port_name \<Rightarrow>
               (case py_getitem port ''targetPort'' of
                  Inl e \<Rightarrow> Inl e
                | Inr tp \<Rightarrow>
                    (case (if py_truthy tp then Inr tp else py_getitem port ''port'') of
                       Inl e \<Rightarrow> Inl e
                     | Inr num \<Rightarrow>
                         Inr \<lparr>metadata =
                                \<lparr>meta_name = build_ingress_name service_name port_name,
                                 meta_namespace = namespace,
                                 meta_annotations = [(INGRESS_CLASS_ANNOTATION, INGRESS_CLASS_VALUE)],
                                 meta_owner_references =
                                   [\<lparr>ref_api_version = ''v1'',
                                     ref_kind = ''Service'',
                                     ref_name = service_name,
                                     ref_uid = [],
                                     ref_controller = True,
                                     ref_block_owner_deletion = True\<rparr>]\<rparr>,
                              ingress_spec =
                                \<lparr>spec_rules =
                                   [\<lparr>rule_http =
                                      \<lparr>http_paths =
                                         [\<lparr>ingress_path = path,
                                           ingress_path_type = ''Prefix'',
                                           ingress_backend =
                                             \<lparr>backend_service =
                                                \<lparr>backend_service_name = service_name,
                                                 backend_service_port =
                                                   \<lparr>port_number = num\<rparr>\<rparr>\<rparr>\<rparr>]\<rparr>\<rparr>]\<rparr>\<rparr>))))"

text \<open>
  The uid fill-in of line 93,
  \<^verbatim>\<open>ingress_obj.metadata.owner_references[0].uid = uid\<close>: an index error on an
  empty list of owner references.
\<close>

definition set_owner_uid :: "V1Ingress \<Rightarrow> string \<Rightarrow> exn + V1Ingress" where
  "set_owner_uid ingress_obj uid =
     (case meta_owner_references (metadata ingress_obj) of
        [] \<Rightarrow> Inl IndexError
      | r # rs \<Rightarrow>
          Inr (ingress_obj\<lparr>metadata :=
                 (metadata ingress_obj)\<lparr>meta_owner_references := r\<lparr>ref_uid := uid\<rparr> # rs\<rparr>\<rparr>))"

text \<open>
  Lines 86-93 of \<^verbatim>\<open>manage_ingress\<close>, after the path is read: select the port, raise
  a \<^verbatim>\<open>TemporaryError\<close> when \<^verbatim>\<open>not port\<close> (no port, or an empty dictionary), build
  the object and fill the uid in. No cluster call is made here.
\<close>

definition desired_ingress :: "V1Service \<Rightarrow> string \<Rightarrow> string \<Rightarrow> string \<Rightarrow> string \<Rightarrow> exn + V1Ingress" where
  "desired_ingress service name namespace uid path =
     (case find_http_port service of
        Inl e \<Rightarrow> Inl e
      | Inr None \<Rightarrow> Inl (TemporaryError ''No ports found on service'' 10)
      | Inr (Some port) \<Rightarrow>
          if port = [] then Inl (TemporaryError ''No ports found on service'' 10)
          else (case create_ingress_object namespace name path port of
                  Inl e \<Rightarrow> Inl e
                | Inr ingress_obj \<Rightarrow> set_owner_uid ingress_obj uid))"

section \<open>The cluster gateway and the handlers\<close>

text \<open>
  The handlers talk to the cluster through \<^verbatim>\<open>k8s_client.NetworkingV1Api()\<close>. The
  client is a parameter here: four operations over a cluster state \<open>'s\<close>, each
  returning the new state and either a result or the exception raised. What the
  cluster answers is not fixed by the operator, so the theorems hold for every such
  record.
\<close>

record 's NetworkingV1Api =
  list_namespaced_ingress :: "string \<Rightarrow> 's \<Rightarrow> (exn + V1Ingress list) \<times> 's"
  create_namespaced_ingress :: "string \<Rightarrow> V1Ingress \<Rightarrow> 's \<Rightarrow> (exn + unit) \<times> 's"
  patch_namespaced_ingress :: "string \<Rightarrow> string \<Rightarrow> V1Ingress \<Rightarrow> 's \<Rightarrow> (exn + unit) \<times> 's"
  delete_namespaced_ingress :: "string \<Rightarrow> string \<Rightarrow> 's \<Rightarrow> (exn + unit) \<times> 's"

text \<open>
  What a handler does, in order: the cluster calls it issues, the events it records
  with \<^verbatim>\<open>kopf.info(obj, reason=..., message=...)\<close> and what it prints.
  The first argument of \<^verbatim>\<open>kopf.info\<close> is the Service's \<^verbatim>\<open>meta\<close> in
  \<^verbatim>\<open>manage_ingress\<close> (lines 81, 99, 104) and the listed Ingress's
  \<^verbatim>\<open>ing.metadata\<close> in \<^verbatim>\<open>cleanup_ingress\<close> (line 118).
\<close>

datatype info_target = ServiceMeta | IngressMeta V1ObjectMeta

datatype event =
    ListCall string
  | CreateCall string V1Ingress
  | PatchCall string string V1Ingress
  | DeleteCall string string
  | Info info_target string string
  | Print string

text \<open>
  \<^verbatim>\<open>kopf.info\<close> reads the object it is given with \<^verbatim>\<open>.get\<close>. The Service's
  \<^verbatim>\<open>meta\<close> is a mapping: the event is recorded and the call returns. The metadata
  of a listed Ingress is a \<^verbatim>\<open>V1ObjectMeta\<close> of the Kubernetes client, which has no
  \<^verbatim>\<open>get\<close>: the call raises \<^verbatim>\<open>AttributeError\<close> and records nothing.
\<close>

fun kopf_info :: "info_target \<Rightarrow> string \<Rightarrow> string \<Rightarrow> exn + event" where
  "kopf_info ServiceMeta reason message = Inr (Info ServiceMeta reason message)"
| "kopf_info (IngressMeta m) reason message = Inl (AttributeError ''get'')"

text \<open>
  The loop of lines 78-81 and 115-118: delete every listed Ingress whose name starts
  with the prefix, then record the deletion. The two handlers differ in the
  \<^verbatim>\<open>kopf.info\<close> call, the parameter \<open>info\<close>. An exception of the delete call or of
  \<^verbatim>\<open>kopf.info\<close> leaves the loop.
\<close>

fun delete_family ::
  "'s NetworkingV1Api \<Rightarrow> (V1Ingress \<Rightarrow> exn + event) \<Rightarrow> string \<Rightarrow> string \<Rightarrow> V1Ingress list \<Rightarrow> 's
     \<Rightarrow> (exn + unit) \<times> 's \<times> event list" where
  "delete_family api info pfx namespace [] s = (Inr (), s, [])"
| "delete_family api info pfx namespace (ing # ingresses) s =
     (if startswith (meta_name (metadata ing)) pfx then
        (case delete_namespaced_ingress api (meta_name (metadata ing)) namespace s of
           (Inl e, s') \<Rightarrow> (Inl e, s', [DeleteCall (meta_name (metadata ing)) namespace])
         | (Inr u, s') \<Rightarrow>
             (case info ing of
                Inl e \<Rightarrow> (Inl e, s', [DeleteCall (meta_name (metadata ing)) namespace])
              | Inr ev \<Rightarrow>
                  (case delete_family api info pfx namespace ingresses s' of
                     (r, s'', evs) \<Rightarrow>
                       (r, s'', DeleteCall (meta_name (metadata ing)) namespace # ev # evs))))
      else delete_family api info pfx namespace ingresses s)"

text \<open>
  \<^verbatim>\<open>except ApiException as e: raise kopf.TemporaryError(f"...{e}", delay=10)\<close>
  (lines 82-83): other exceptions pass unchanged.
\<close>

definition except_ApiException :: "string \<Rightarrow> exn + 'a \<Rightarrow> exn + 'a" where
  "except_ApiException msg r =
     (case r of
        Inl (ApiException status txt) \<Rightarrow> Inl (TemporaryError (msg @ txt) 10)
      | _ \<Rightarrow> r)"

text \<open>
  Lines 95-106: create; on an \<^verbatim>\<open>ApiException\<close> with status 409 patch instead
  (the patch is made inside the \<^verbatim>\<open>except\<close> block, so what it raises is not caught);
  on any other \<^verbatim>\<open>ApiException\<close> raise a \<^verbatim>\<open>TemporaryError\<close>. Both \<^verbatim>\<open>kopf.info\<close>
  calls get the Service's \<^verbatim>\<open>meta\<close>, so each records its event and returns.
\<close>

definition create_or_patch ::
  "'s NetworkingV1Api \<Rightarrow> string \<Rightarrow> V1Ingress \<Rightarrow> 's \<Rightarrow> (exn + unit) \<times> 's \<times> event list" where
  "create_or_patch api namespace ingress_obj s =
     (let ingress_name = meta_name (metadata ingress_obj) in
      case create_namespaced_ingress api namespace ingress_obj s of
        (Inr u, s1) \<Rightarrow>
          (Inr (), s1,
           [CreateCall namespace ingress_obj,
            Info ServiceMeta ''IngressCreated'' (''Created ingress '' @ ingress_name)])
      | (Inl (ApiException status txt), s1) \<Rightarrow>
          if status = 409 then
            (case patch_namespaced_ingress api ingress_name namespace ingress_obj s1 of
               (Inr u, s2) \<Rightarrow>
                 (Inr (), s2,
                  [CreateCall namespace ingress_obj,
                   PatchCall ingress_name namespace ingress_obj,
                   Info ServiceMeta ''IngressPatched'' (''Updated ingress '' @ ingress_name)])
             | (Inl e, s2) \<Rightarrow>
                 (Inl e, s2,
                  [CreateCall namespace ingress_obj,
                   PatchCall ingress_name namespace ingress_obj]))
          else
            (Inl (TemporaryError (''Failed to create/patch ingress: '' @ txt) 10), s1,
             [CreateCall namespace ingress_obj])
      | (Inl e, s1) \<Rightarrow> (Inl e, s1, [CreateCall namespace ingress_obj]))"

text \<open>
  \<^verbatim>\<open>manage_ingress\<close> (lines 66-106), the handler of Service create and update
  events. \<^verbatim>\<open>annotations\<close> may be \<^verbatim>\<open>None\<close>; \<^verbatim>\<open>status\<close> is not used and \<^verbatim>\<open>meta\<close> only
  goes to \<^verbatim>\<open>kopf.info\<close>. The result is what the handler raises or that it returns, the
  cluster state after it and the events in order.
\<close>

definition manage_ingress ::
  "'s NetworkingV1Api \<Rightarrow> V1Service \<Rightarrow> string \<Rightarrow> string \<Rightarrow> string \<Rightarrow> (string \<times> string) list option \<Rightarrow> 's
     \<Rightarrow> (exn + unit) \<times> 's \<times> event list" where
  "manage_ingress api service name namespace uid annotations s =
     (case map_of (case annotations of None \<Rightarrow> [] | Some a \<Rightarrow> a) AUTO_INGRESS_ANNOTATION of
        None \<Rightarrow>
          (case list_namespaced_ingress api namespace s of
             (Inl e, s1) \<Rightarrow>
               (except_ApiException ''Failed to list/delete ingress: '' (Inl e), s1,
                [ListCall namespace])
           | (Inr ingresses, s1) \<Rightarrow>
               (case delete_family api
                       (\<lambda>ing. kopf_info ServiceMeta ''IngressDeleted''
                                 (''Deleted '' @ meta_name (metadata ing)))
                       (ingress_name_prefix name) namespace ingresses s1 of
                  (r, s2, evs) \<Rightarrow>
                    (except_ApiException ''Failed to list/delete ingress: '' r, s2,
                     ListCall namespace # evs)))
      | Some path \<Rightarrow>
          (case desired_ingress service name namespace uid path of
             Inl e \<Rightarrow> (Inl e, s, [])
           | Inr ingress_obj \<Rightarrow> create_or_patch api namespace ingress_obj s))"

text \<open>
  \<^verbatim>\<open>cleanup_ingress\<close> (lines 109-118), the handler of Service delete events: no
  \<^verbatim>\<open>try\<close> block, so every exception of a cluster call or of \<^verbatim>\<open>kopf.info\<close> leaves
  the handler as it is.
\<close>

definition cleanup_ingress ::
  "'s NetworkingV1Api \<Rightarrow> string \<Rightarrow> string \<Rightarrow> 's \<Rightarrow> (exn + unit) \<times> 's \<times> event list" where
  "cleanup_ingress api name namespace s =
     (let banner = Print (''Cleaning up ingress for service '' @ name @ '' in namespace ''
                           @ namespace @ ''!!!!!!!!!!!!!!!!!!'') in
      case list_namespaced_ingress api namespace s of
        (Inl e, s1) \<Rightarrow> (Inl e, s1, [banner, ListCall namespace])
      | (Inr ingresses, s1) \<Rightarrow>
          (case delete_family api
                  (\<lambda>ing. kopf_info (IngressMeta (metadata ing)) ''IngressDeleted''
                            (''Deleted ingress '' @ meta_name (metadata ing)))
                  (ingress_name_prefix name) namespace ingresses s1 of
             (r, s2, evs) \<Rightarrow> (r, s2, banner # ListCall namespace # evs)))"

section \<open>Observations on a run\<close>

definition outcome :: "(exn + unit) \<times> 's \<times> event list \<Rightarrow> exn + unit" where
  "outcome run = fst run"

definition events :: "(exn + unit) \<times> 's \<times> event list \<Rightarrow> event list" where
  "events run = snd (snd run)"

text \<open>The cluster calls among the events.\<close>

fun is_call :: "event \<Rightarrow> bool" where
  "is_call (Info t r m) = False"
| "is_call (Print m) = False"
| "is_call c = True"

definition api_calls :: "event list \<Rightarrow> event list" where
  "api_calls evs = filter is_call evs"

text \<open>The Ingress object an event submits to the cluster, if it submits one.\<close>

fun submitted :: "event \<Rightarrow> V1Ingress option" where
  "submitted (CreateCall ns obj) = Some obj"
| "submitted (PatchCall n ns obj) = Some obj"
| "submitted ev = None"

text \<open>A port's \<^verbatim>\<open>name\<close> entry is the string \<^verbatim>\<open>"http"\<close>.\<close>

definition named_http :: "pydict \<Rightarrow> bool" where
  "named_http p = (map_of p ''name'' = Some (PStr ''http''))"

text \<open>
  The members of a Service's family among listed Ingresses: the names that start with
  the Service's prefix, in listing order.
\<close>

definition family :: "string \<Rightarrow> V1Ingress list \<Rightarrow> string list" where
  "family name ingresses =
     filter (\<lambda>n. startswith n (ingress_name_prefix name))
       (map (\<lambda>ing. meta_name (metadata ing)) ingresses)"

section \<open>Test doubles of the cluster\<close>

text \<open>
  Gateways to run the handlers on. \<open>canned_api\<close> answers every call of one kind
  with the same response and keeps no state. \<open>mem_api\<close> keeps the Ingresses in a list:
  creating an existing name in a namespace is a 409 conflict, patching or deleting an
  absent one a 404.
\<close>

definition canned_api ::
  "exn + V1Ingress list \<Rightarrow> exn + unit \<Rightarrow> exn + unit \<Rightarrow> exn + unit \<Rightarrow> unit NetworkingV1Api" where
  "canned_api listed created patched deleted =
     \<lparr>list_namespaced_ingress = (\<lambda>ns s. (listed, s)),
      create_namespaced_ingress = (\<lambda>ns obj s. (created, s)),
      patch_namespaced_ingress = (\<lambda>n ns obj s. (patched, s)),
      delete_namespaced_ingress = (\<lambda>n ns s. (deleted, s))\<rparr>"

text \<open>A listed Ingress of which only the name and the namespace matter.\<close>

definition named_ingress :: "string \<Rightarrow> string \<Rightarrow> V1Ingress" where
  "named_ingress n ns =
     \<lparr>metadata = \<lparr>meta_name = n, meta_namespace = ns, meta_annotations = [],
                   meta_owner_references = []\<rparr>,
      ingress_spec = \<lparr>spec_rules = []\<rparr>\<rparr>"


definition same_object :: "string \<Rightarrow> string \<Rightarrow> V1Ingress \<Rightarrow> bool" where
  "same_object n ns ing = (meta_name (metadata ing) = n \<and> meta_namespace (metadata ing) = ns)"

definition mem_api :: "(V1Ingress list) NetworkingV1Api" where
  "mem_api =
     \<lparr>list_namespaced_ingress =
        (\<lambda>ns s. (Inr (filter (\<lambda>ing. meta_namespace (metadata ing) = ns) s), s)),
      create_namespaced_ingress =
        (\<lambda>ns obj s.
           if list_ex (same_object (meta_name (metadata obj)) ns) s
           then (Inl (ApiException 409 ''Conflict''), s)
           else (Inr (), s @ [obj])),
      patch_namespaced_ingress =
        (\<lambda>n ns obj s.
           if list_ex (same_object n ns) s
           then (Inr (), map (\<lambda>ing. if same_object n ns ing then obj else ing) s)
           else (Inl (ApiException 404 ''Not Found''), s)),
      delete_namespaced_ingress =
        (\<lambda>n ns s.
           if list_ex (same_object n ns) s
           then (Inr (), filter (\<lambda>ing. \<not> same_object n ns ing) s)
           else (Inl (ApiException 404 ''Not Found''), s))\<rparr>"

section \<open>The port selector\<close>

lemma scan_for_http_total:
  "(\<exists>r. scan_for_http ports = Inr r) \<longleftrightarrow>
   (\<forall>p \<in> set (takeWhile (\<lambda>p. \<not> named_http p) ports). map_of p ''name'' \<noteq> None)"
  by (induction ports) (auto simp: py_getitem_def named_http_def split: option.splits)

lemma scan_for_http_error:
  "scan_for_http ports = Inl e \<Longrightarrow> e = KeyError ''name''"
  by (induction ports) (auto simp: py_getitem_def split: option.splits if_splits)

lemma scan_for_http_unnamed:
  "\<forall>q \<in> set pre. \<not> named_http q \<Longrightarrow> map_of p ''name'' = None \<Longrightarrow>
   scan_for_http (pre @ p # rest) = Inl (KeyError ''name'')"
  by (induction pre) (auto simp: py_getitem_def named_http_def split: option.splits)

lemma find_http_port_Inr:
  "(\<exists>r. find_http_port \<lparr>service_ports = Some ports\<rparr> = Inr r) \<longleftrightarrow>
   (\<exists>r. scan_for_http ports = Inr r)"
  by (auto simp: find_http_port_def split: sum.splits option.splits list.splits)

lemma find_http_port_Inl:
  "find_http_port \<lparr>service_ports = Some ports\<rparr> = Inl e \<longleftrightarrow> scan_for_http ports = Inl e"
  by (auto simp: find_http_port_def split: sum.splits option.splits list.splits)





text \<open>
  C10. The selector returns (a port or none) exactly when every port it scans, that
  is every port up to the first one named \<^verbatim>\<open>"http"\<close>, carries a \<^verbatim>\<open>name\<close> entry; its
  only failure is \<^verbatim>\<open>KeyError: 'name'\<close>; and a port without a \<^verbatim>\<open>name\<close> entry that no
  port named \<^verbatim>\<open>"http"\<close> precedes makes it fail so, whatever follows.
\<close>

theorem find_http_port_needs_name:
  "((\<exists>r. find_http_port \<lparr>service_ports = Some ports\<rparr> = Inr r) \<longleftrightarrow>
      (\<forall>p \<in> set (takeWhile (\<lambda>p. \<not> named_http p) ports). map_of p ''name'' \<noteq> None))
   \<and> (find_http_port \<lparr>service_ports = Some ports\<rparr> = Inl e \<longrightarrow> e = KeyError ''name'')
   \<and> ((\<forall>q \<in> set pre. \<not> named_http q) \<and> map_of p ''name'' = None
        \<longrightarrow> find_http_port \<lparr>service_ports = Some (pre @ p # rest)\<rparr> = Inl (KeyError ''name''))"
proof (intro conjI impI)
  show "(\<exists>r. find_http_port \<lparr>service_ports = Some ports\<rparr> = Inr r) \<longleftrightarrow>
      (\<forall>p \<in> set (takeWhile (\<lambda>p. \<not> named_http p) ports). map_of p ''name'' \<noteq> None)"
    unfolding find_http_port_Inr by (rule scan_for_http_total)
next
  assume "find_http_port \<lparr>service_ports = Some ports\<rparr> = Inl e"
  then show "e = KeyError ''name''"
    unfolding find_http_port_Inl by (rule scan_for_http_error)
next
  assume "(\<forall>q \<in> set pre. \<not> named_http q) \<and> map_of p ''name'' = None"
  then show "find_http_port \<lparr>service_ports = Some (pre @ p # rest)\<rparr> = Inl (KeyError ''name'')"
    unfolding find_http_port_Inl by (simp add: scan_for_http_unnamed)
qed

theorem find_http_port_needs_name_witness:
  "map_of [(''port'', PInt 80)] ''name'' = None
   \<and> find_http_port \<lparr>service_ports = Some
        [[(''port'', PInt 80)], [(''name'', PStr ''http''), (''port'', PInt 8080)]]\<rparr>
      = Inl (KeyError ''name'')
   \<and> (\<nexists>r. find_http_port \<lparr>service_ports = Some
        [[(''port'', PInt 80)], [(''name'', PStr ''http''), (''port'', PInt 8080)]]\<rparr> = Inr r)"
  using find_http_port_needs_name
    [of "[[(''port'', PInt 80)], [(''name'', PStr ''http''), (''port'', PInt 8080)]]"
        "KeyError ''name''" "[]" "[(''port'', PInt 80)]"
        "[[(''name'', PStr ''http''), (''port'', PInt 8080)]]"]
  by (simp add: named_http_def)

section \<open>The naming function and the family prefix\<close>

text \<open>
  C1, where the code departs from it. The name generated for the Service \<^verbatim>\<open>svc2\<close>
  starts with the family prefix of the Service \<^verbatim>\<open>svc\<close>: the name is built with a
  hyphen after the service name, the prefix the handlers filter with is not. So a
  create or update event of \<^verbatim>\<open>svc\<close> without the annotation, and a delete event of
  \<^verbatim>\<open>svc\<close>, delete the Ingress of \<^verbatim>\<open>svc2\<close>.
\<close>

theorem svc_family_takes_svc2:
  "''svc'' \<noteq> ''svc2''
   \<and> build_ingress_name ''svc2'' (PStr ''http'') = ''auto-ingress-svc2-http''
   \<and> startswith (build_ingress_name ''svc2'' (PStr ''http'')) (ingress_name_prefix ''svc'')
   \<and> manage_ingress mem_api \<lparr>service_ports = Some []\<rparr> ''svc'' ''ns1'' ''uid-1'' None
        [named_ingress (build_ingress_name ''svc2'' (PStr ''http'')) ''ns1'']
     = (Inr (), [],
        [ListCall ''ns1'', DeleteCall ''auto-ingress-svc2-http'' ''ns1'',
         Info ServiceMeta ''IngressDeleted'' ''Deleted auto-ingress-svc2-http''])
   \<and> api_calls (events (cleanup_ingress mem_api ''svc'' ''ns1''
        [named_ingress (build_ingress_name ''svc2'' (PStr ''http'')) ''ns1'']))
     = [ListCall ''ns1'', DeleteCall ''auto-ingress-svc2-http'' ''ns1'']
   \<and> fst (snd (cleanup_ingress mem_api ''svc'' ''ns1''
        [named_ingress (build_ingress_name ''svc2'' (PStr ''http'')) ''ns1''])) = []"
  by (simp add: mem_api_def named_ingress_def startswith_def ingress_name_prefix_def
        build_ingress_name_def manage_ingress_def cleanup_ingress_def events_def api_calls_def
        same_object_def except_ApiException_def AUTO_INGRESS_ANNOTATION_def)

section \<open>The deletion loop\<close>



lemma delete_family_submits_nothing:
  assumes "\<And>i ev. info i = Inr ev \<Longrightarrow> submitted ev = None"
  shows "delete_family api info pfx ns ings s = (r, s', evs) \<Longrightarrow>
     \<forall>ev \<in> set evs. submitted ev = None"
proof (induction ings arbitrary: s r s' evs)
  case Nil
  then show ?case by simp
next
  case (Cons ing ings)
  then show ?case
    using assms by (fastforce split: if_splits prod.splits sum.splits)
qed

section \<open>Removal of a Service's family\<close>

lemma manage_ingress_removal:
  assumes "map_of (case annotations of None \<Rightarrow> [] | Some a \<Rightarrow> a) AUTO_INGRESS_ANNOTATION = None"
      and "list_namespaced_ingress api namespace s = (Inr ingresses, s1)"
      and "delete_family api
             (\<lambda>ing. kopf_info ServiceMeta ''IngressDeleted'' (''Deleted '' @ meta_name (metadata ing)))
             (ingress_name_prefix name) namespace ingresses s1 = (r, s2, evs)"
  shows "manage_ingress api service name namespace uid annotations s =
           (except_ApiException ''Failed to list/delete ingress: '' r, s2, ListCall namespace # evs)"
  using assms by (simp add: manage_ingress_def)

lemma cleanup_ingress_removal:
  assumes "list_namespaced_ingress api namespace s = (Inr ingresses, s1)"
      and "delete_family api
             (\<lambda>ing. kopf_info (IngressMeta (metadata ing)) ''IngressDeleted''
                       (''Deleted ingress '' @ meta_name (metadata ing)))
             (ingress_name_prefix name) namespace ingresses s1 = (r, s2, evs)"
  shows "cleanup_ingress api name namespace s =
           (r, s2,
            Print (''Cleaning up ingress for service '' @ name @ '' in namespace ''
                   @ namespace @ ''!!!!!!!!!!!!!!!!!!'')
            # ListCall namespace # evs)"
  using assms by (simp add: cleanup_ingress_def)

text \<open>
  C3, where the code departs from it. On a delete event of the Service \<^verbatim>\<open>web\<close> whose
  family has two members, the delete handler deletes the first member, then its
  \<^verbatim>\<open>kopf.info(ing.metadata, ...)\<close> raises \<^verbatim>\<open>AttributeError\<close>: the second member is
  never deleted and stays in the cluster. On the same cluster the handler of create and
  update events, with the annotation absent, deletes both members and nothing else.
\<close>

theorem cleanup_stops_after_first_delete:
  "family ''web''
      [named_ingress ''auto-ingress-web-http'' ''ns1'', named_ingress ''auto-ingress-web-8080'' ''ns1'',
       named_ingress ''grafana'' ''ns1'']
     = [''auto-ingress-web-http'', ''auto-ingress-web-8080'']
   \<and> cleanup_ingress mem_api ''web'' ''ns1''
      [named_ingress ''auto-ingress-web-http'' ''ns1'', named_ingress ''auto-ingress-web-8080'' ''ns1'',
       named_ingress ''grafana'' ''ns1'']
     = (Inl (AttributeError ''get''),
        [named_ingress ''auto-ingress-web-8080'' ''ns1'', named_ingress ''grafana'' ''ns1''],
        [Print ''Cleaning up ingress for service web in namespace ns1!!!!!!!!!!!!!!!!!!'',
         ListCall ''ns1'', DeleteCall ''auto-ingress-web-http'' ''ns1''])
   \<and> manage_ingress mem_api \<lparr>service_ports = Some []\<rparr> ''web'' ''ns1'' ''uid-1'' None
      [named_ingress ''auto-ingress-web-http'' ''ns1'', named_ingress ''auto-ingress-web-8080'' ''ns1'',
       named_ingress ''grafana'' ''ns1'']
     = (Inr (), [named_ingress ''grafana'' ''ns1''],
        [ListCall ''ns1'',
         DeleteCall ''auto-ingress-web-http'' ''ns1'',
         Info ServiceMeta ''IngressDeleted'' ''Deleted auto-ingress-web-http'',
         DeleteCall ''auto-ingress-web-8080'' ''ns1'',
         Info ServiceMeta ''IngressDeleted'' ''Deleted auto-ingress-web-8080''])"
  by (simp add: mem_api_def named_ingress_def family_def startswith_def ingress_name_prefix_def
        manage_ingress_def cleanup_ingress_def same_object_def except_ApiException_def
        AUTO_INGRESS_ANNOTATION_def)




section \<open>Creating or patching the desired Ingress\<close>

text \<open>
  C8. With the annotation present and an empty port list the handler raises the
  \<^verbatim>\<open>TemporaryError\<close> "No ports found on service" with a delay of 10, leaves the
  cluster state as it was and has made no cluster call at all.
\<close>

theorem no_ports_no_mutation:
  assumes "map_of (case annotations of None \<Rightarrow> [] | Some a \<Rightarrow> a) AUTO_INGRESS_ANNOTATION = Some path"
  shows "manage_ingress api \<lparr>service_ports = Some []\<rparr> name namespace uid annotations s =
           (Inl (TemporaryError ''No ports found on service'' 10), s, [])"
  using assms by (simp add: manage_ingress_def desired_ingress_def find_http_port_def)

theorem no_ports_no_mutation_witness:
  "map_of [(''auto-ingress'', ''/app'')] AUTO_INGRESS_ANNOTATION = Some ''/app''
   \<and> manage_ingress mem_api \<lparr>service_ports = Some []\<rparr> ''web'' ''ns1'' ''uid-1''
        (Some [(''auto-ingress'', ''/app'')]) [named_ingress ''grafana'' ''ns1'']
     = (Inl (TemporaryError ''No ports found on service'' 10),
        [named_ingress ''grafana'' ''ns1''], [])"
  using no_ports_no_mutation [of "Some [(''auto-ingress'', ''/app'')]" "''/app''" mem_api
      "''web''" "''ns1''" "''uid-1''" "[named_ingress ''grafana'' ''ns1'']"]
  by (simp add: AUTO_INGRESS_ANNOTATION_def)

lemma manage_ingress_upsert:
  assumes "map_of (case annotations of None \<Rightarrow> [] | Some a \<Rightarrow> a) AUTO_INGRESS_ANNOTATION = Some path"
      and "desired_ingress service name namespace uid path = Inr obj"
  shows "manage_ingress api service name namespace uid annotations s =
           create_or_patch api namespace obj s"
  using assms by (simp add: manage_ingress_def)

lemma create_or_patch_first:
  "\<exists>rest. snd (snd (create_or_patch api namespace obj s)) = CreateCall namespace obj # rest"
  by (simp add: create_or_patch_def Let_def split: prod.splits sum.splits exn.splits)

lemma create_or_patch_submits:
  "ev \<in> set (snd (snd (create_or_patch api namespace obj s))) \<Longrightarrow> submitted ev = Some x \<Longrightarrow> x = obj"
  by (auto simp: create_or_patch_def Let_def split: prod.splits sum.splits exn.splits if_splits)

lemma create_ingress_object_owner:
  "create_ingress_object namespace name path port = Inr obj \<Longrightarrow>
   meta_owner_references (metadata obj) =
     [\<lparr>ref_api_version = ''v1'', ref_kind = ''Service'', ref_name = name, ref_uid = [],
       ref_controller = True, ref_block_owner_deletion = True\<rparr>]"
  by (auto simp: create_ingress_object_def split: sum.splits if_splits)

lemma desired_ingress_owner:
  assumes "desired_ingress service name namespace uid path = Inr obj"
  shows "meta_owner_references (metadata obj) =
     [\<lparr>ref_api_version = ''v1'', ref_kind = ''Service'', ref_name = name, ref_uid = uid,
       ref_controller = True, ref_block_owner_deletion = True\<rparr>]"
proof -
  from assms obtain port obj0 where
      built: "create_ingress_object namespace name path port = Inr obj0"
      and filled: "set_owner_uid obj0 uid = Inr obj"
    by (auto simp: desired_ingress_def split: sum.splits option.splits if_splits)
  from create_ingress_object_owner [OF built] filled show ?thesis
    by (auto simp: set_owner_uid_def)
qed

lemma desired_ingress_web:
  "desired_ingress
     \<lparr>service_ports = Some [[(''name'', PStr ''http''), (''port'', PInt 80), (''targetPort'', PInt 8080)]]\<rparr>
     ''web'' ''ns1'' uid ''/app'' =
   Inr \<lparr>metadata =
          \<lparr>meta_name = ''auto-ingress-web-http'',
           meta_namespace = ''ns1'',
           meta_annotations = [(''traefik.ingress.kubernetes.io/router.entrypoints'', ''web'')],
           meta_owner_references =
             [\<lparr>ref_api_version = ''v1'', ref_kind = ''Service'', ref_name = ''web'', ref_uid = uid,
               ref_controller = True, ref_block_owner_deletion = True\<rparr>]\<rparr>,
        ingress_spec =
          \<lparr>spec_rules =
             [\<lparr>rule_http =
                \<lparr>http_paths =
                   [\<lparr>ingress_path = ''/app'',
                     ingress_path_type = ''Prefix'',
                     ingress_backend =
                       \<lparr>backend_service =
                          \<lparr>backend_service_name = ''web'',
                           backend_service_port = \<lparr>port_number = PInt 8080\<rparr>\<rparr>\<rparr>\<rparr>]\<rparr>\<rparr>]\<rparr>\<rparr>"
  by (simp add: desired_ingress_def find_http_port_def py_getitem_def create_ingress_object_def
        set_owner_uid_def build_ingress_name_def INGRESS_CLASS_ANNOTATION_def
        INGRESS_CLASS_VALUE_def)

text \<open>
  C2. For the Service \<^verbatim>\<open>web\<close> in \<^verbatim>\<open>ns1\<close> with the annotation \<^verbatim>\<open>auto-ingress: "/app"\<close>
  and the one port \<^verbatim>\<open>{name: http, port: 80, targetPort: 8080}\<close>, on every cluster: the
  handler issues the create call in \<^verbatim>\<open>ns1\<close> with the Ingress
  \<^verbatim>\<open>auto-ingress-web-http\<close> (one rule, one path \<^verbatim>\<open>/app\<close> of type \<^verbatim>\<open>Prefix\<close>, backend
  service \<^verbatim>\<open>web\<close> on port 8080) first, and what the handler returns and the state it
  leaves the cluster in are those of that call: on its success the handler returns with
  the state the create call produced; on an \<^verbatim>\<open>ApiException\<close> other than 409 it raises a
  \<^verbatim>\<open>TemporaryError\<close>; on 409 the result and the state are those of the patch of the
  same object; any other exception leaves the handler. With the target port unset
  (\<^verbatim>\<open>None\<close>) the backend port is the port number 80.
\<close>

theorem web_scenario_create:
  fixes api :: "'s NetworkingV1Api" and s :: 's and uid :: string
  defines "obj \<equiv>
      \<lparr>metadata =
         \<lparr>meta_name = ''auto-ingress-web-http'',
          meta_namespace = ''ns1'',
          meta_annotations = [(''traefik.ingress.kubernetes.io/router.entrypoints'', ''web'')],
          meta_owner_references =
            [\<lparr>ref_api_version = ''v1'', ref_kind = ''Service'', ref_name = ''web'', ref_uid = uid,
              ref_controller = True, ref_block_owner_deletion = True\<rparr>]\<rparr>,
       ingress_spec =
         \<lparr>spec_rules =
            [\<lparr>rule_http =
               \<lparr>http_paths =
                  [\<lparr>ingress_path = ''/app'',
                    ingress_path_type = ''Prefix'',
                    ingress_backend =
                      \<lparr>backend_service =
                         \<lparr>backend_service_name = ''web'',
                          backend_service_port = \<lparr>port_number = PInt 8080\<rparr>\<rparr>\<rparr>\<rparr>]\<rparr>\<rparr>]\<rparr>\<rparr>"
    and "run \<equiv> manage_ingress api
        \<lparr>service_ports = Some [[(''name'', PStr ''http''), (''port'', PInt 80), (''targetPort'', PInt 8080)]]\<rparr>
        ''web'' ''ns1'' uid (Some [(''auto-ingress'', ''/app'')]) s"
  shows "(\<exists>rest. events run = CreateCall ''ns1'' obj # rest)
   \<and> (create_namespaced_ingress api ''ns1'' obj s = (Inr (), s1) \<longrightarrow>
        run = (Inr (), s1,
               [CreateCall ''ns1'' obj,
                Info ServiceMeta ''IngressCreated'' ''Created ingress auto-ingress-web-http'']))
   \<and> (create_namespaced_ingress api ''ns1'' obj s = (Inl (ApiException status body), s1)
        \<and> status \<noteq> 409 \<longrightarrow>
        run = (Inl (TemporaryError (''Failed to create/patch ingress: '' @ body) 10), s1,
               [CreateCall ''ns1'' obj]))
   \<and> (create_namespaced_ingress api ''ns1'' obj s = (Inl (ApiException 409 body), s1)
        \<and> patch_namespaced_ingress api ''auto-ingress-web-http'' ''ns1'' obj s1 = (patched, s2) \<longrightarrow>
        run = (patched, s2,
               [CreateCall ''ns1'' obj, PatchCall ''auto-ingress-web-http'' ''ns1'' obj]
               @ (if patched = Inr ()
                  then [Info ServiceMeta ''IngressPatched'' ''Updated ingress auto-ingress-web-http'']
                  else [])))
   \<and> (create_namespaced_ingress api ''ns1'' obj s = (Inl e, s1)
        \<and> (\<forall>st b. e \<noteq> ApiException st b) \<longrightarrow>
        run = (Inl e, s1, [CreateCall ''ns1'' obj]))
   \<and> (\<exists>unset.
        create_ingress_object ''ns1'' ''web'' ''/app''
          [(''name'', PStr ''http''), (''port'', PInt 80), (''targetPort'', PNone)] = Inr unset
        \<and> map (\<lambda>r. map (\<lambda>p. port_number (backend_service_port (backend_service (ingress_backend p))))
                     (http_paths (rule_http r)))
             (spec_rules (ingress_spec unset)) = [[PInt 80]])"
proof -
  have present: "map_of (case Some [(''auto-ingress'', ''/app'')] of None \<Rightarrow> [] | Some a \<Rightarrow> a)
      AUTO_INGRESS_ANNOTATION = Some ''/app''"
    by (simp add: AUTO_INGRESS_ANNOTATION_def)
  have run: "run = create_or_patch api ''ns1'' obj s"
    unfolding run_def obj_def by (rule manage_ingress_upsert [OF present desired_ingress_web])
  have nm: "meta_name (metadata obj) = ''auto-ingress-web-http''"
    by (simp add: obj_def)
  have c1: "\<exists>rest. events run = CreateCall ''ns1'' obj # rest"
    unfolding run events_def by (rule create_or_patch_first)
  have c2: "create_namespaced_ingress api ''ns1'' obj s = (Inr (), s1) \<longrightarrow>
        run = (Inr (), s1,
               [CreateCall ''ns1'' obj,
                Info ServiceMeta ''IngressCreated'' ''Created ingress auto-ingress-web-http''])"
    by (simp add: run create_or_patch_def Let_def nm)
  have c3: "create_namespaced_ingress api ''ns1'' obj s = (Inl (ApiException status body), s1)
        \<and> status \<noteq> 409 \<longrightarrow>
        run = (Inl (TemporaryError (''Failed to create/patch ingress: '' @ body) 10), s1,
               [CreateCall ''ns1'' obj])"
    by (simp add: run create_or_patch_def Let_def nm)
  have c4: "create_namespaced_ingress api ''ns1'' obj s = (Inl (ApiException 409 body), s1)
        \<and> patch_namespaced_ingress api ''auto-ingress-web-http'' ''ns1'' obj s1 = (patched, s2) \<longrightarrow>
        run = (patched, s2,
               [CreateCall ''ns1'' obj, PatchCall ''auto-ingress-web-http'' ''ns1'' obj]
               @ (if patched = Inr ()
                  then [Info ServiceMeta ''IngressPatched'' ''Updated ingress auto-ingress-web-http'']
                  else []))"
    by (cases patched) (simp_all add: run create_or_patch_def Let_def nm)
  have c5: "create_namespaced_ingress api ''ns1'' obj s = (Inl e, s1)
        \<and> (\<forall>st b. e \<noteq> ApiException st b) \<longrightarrow>
        run = (Inl e, s1, [CreateCall ''ns1'' obj])"
    by (cases e) (simp_all add: run create_or_patch_def Let_def nm)
  have c6: "\<exists>unset.
        create_ingress_object ''ns1'' ''web'' ''/app''
          [(''name'', PStr ''http''), (''port'', PInt 80), (''targetPort'', PNone)] = Inr unset
        \<and> map (\<lambda>r. map (\<lambda>p. port_number (backend_service_port (backend_service (ingress_backend p))))
                     (http_paths (rule_http r)))
             (spec_rules (ingress_spec unset)) = [[PInt 80]]"
    by (simp add: create_ingress_object_def py_getitem_def)
  from c1 c2 c3 c4 c5 c6 show ?thesis by blast
qed

theorem web_scenario_create_witness:
  "\<exists>obj.
     meta_name (metadata obj) = ''auto-ingress-web-http''
     \<and> create_namespaced_ingress mem_api ''ns1'' obj [named_ingress ''grafana'' ''ns1'']
         = (Inr (), [named_ingress ''grafana'' ''ns1'', obj])
     \<and> manage_ingress mem_api
         \<lparr>service_ports = Some [[(''name'', PStr ''http''), (''port'', PInt 80), (''targetPort'', PInt 8080)]]\<rparr>
         ''web'' ''ns1'' ''uid-1'' (Some [(''auto-ingress'', ''/app'')]) [named_ingress ''grafana'' ''ns1'']
       = (Inr (), [named_ingress ''grafana'' ''ns1'', obj],
          [CreateCall ''ns1'' obj,
           Info ServiceMeta ''IngressCreated'' ''Created ingress auto-ingress-web-http''])"
  using web_scenario_create [of mem_api "''uid-1''" "[named_ingress ''grafana'' ''ns1'']"]
  by (simp add: mem_api_def same_object_def named_ingress_def)

text \<open>
  C5. With the annotation present and a desired Ingress built, when the create call
  raises an \<^verbatim>\<open>ApiException\<close> with status 409 the handler patches the object of the
  same name in the same namespace with the same desired Ingress; the conflict itself is
  never raised. When the patch returns, the handler returns normally after recording
  the event \<^verbatim>\<open>IngressPatched\<close> ("Updated ingress ..."); the outcome of the handler is
  the outcome of the patch.
\<close>

theorem conflict_falls_back_to_patch:
  assumes "map_of (case annotations of None \<Rightarrow> [] | Some a \<Rightarrow> a) AUTO_INGRESS_ANNOTATION = Some path"
      and "desired_ingress service name namespace uid path = Inr obj"
      and "create_namespaced_ingress api namespace obj s = (Inl (ApiException 409 body), s1)"
      and "patch_namespaced_ingress api (meta_name (metadata obj)) namespace obj s1 = (patched, s2)"
  shows "manage_ingress api service name namespace uid annotations s =
           (patched, s2,
            [CreateCall namespace obj, PatchCall (meta_name (metadata obj)) namespace obj]
            @ (if patched = Inr ()
               then [Info ServiceMeta ''IngressPatched''
                       (''Updated ingress '' @ meta_name (metadata obj))]
               else []))"
  unfolding manage_ingress_upsert [OF assms(1) assms(2)]
  using assms(3) assms(4)
  by (cases patched) (simp_all add: create_or_patch_def Let_def)

theorem conflict_falls_back_to_patch_witness:
  "\<exists>obj.
     desired_ingress
       \<lparr>service_ports = Some [[(''name'', PStr ''http''), (''port'', PInt 80), (''targetPort'', PInt 8080)]]\<rparr>
       ''web'' ''ns1'' ''uid-1'' ''/app'' = Inr obj
     \<and> meta_name (metadata obj) = ''auto-ingress-web-http''
     \<and> manage_ingress mem_api
         \<lparr>service_ports = Some [[(''name'', PStr ''http''), (''port'', PInt 80), (''targetPort'', PInt 8080)]]\<rparr>
         ''web'' ''ns1'' ''uid-1'' (Some [(''auto-ingress'', ''/app'')]) []
       = (Inr (), [obj],
          [CreateCall ''ns1'' obj,
           Info ServiceMeta ''IngressCreated'' ''Created ingress auto-ingress-web-http''])
     \<and> create_namespaced_ingress mem_api ''ns1'' obj [obj] = (Inl (ApiException 409 ''Conflict''), [obj])
     \<and> manage_ingress mem_api
         \<lparr>service_ports = Some [[(''name'', PStr ''http''), (''port'', PInt 80), (''targetPort'', PInt 8080)]]\<rparr>
         ''web'' ''ns1'' ''uid-1'' (Some [(''auto-ingress'', ''/app'')]) [obj]
       = (Inr (), [obj],
          [CreateCall ''ns1'' obj, PatchCall ''auto-ingress-web-http'' ''ns1'' obj,
           Info ServiceMeta ''IngressPatched'' ''Updated ingress auto-ingress-web-http''])"
proof -
  let ?svc = "\<lparr>service_ports = Some [[(''name'', PStr ''http''), (''port'', PInt 80), (''targetPort'', PInt 8080)]]\<rparr>"
  let ?anns = "Some [(''auto-ingress'', ''/app'')]"
  obtain obj where obj: "desired_ingress ?svc ''web'' ''ns1'' ''uid-1'' ''/app'' = Inr obj"
      and nm: "meta_name (metadata obj) = ''auto-ingress-web-http''"
      and ns: "meta_namespace (metadata obj) = ''ns1''"
    using desired_ingress_web [of "''uid-1''"] by simp
  have present: "map_of (case ?anns of None \<Rightarrow> [] | Some a \<Rightarrow> a) AUTO_INGRESS_ANNOTATION = Some ''/app''"
    by (simp add: AUTO_INGRESS_ANNOTATION_def)
  have first: "manage_ingress mem_api ?svc ''web'' ''ns1'' ''uid-1'' ?anns []
       = (Inr (), [obj],
          [CreateCall ''ns1'' obj,
           Info ServiceMeta ''IngressCreated'' ''Created ingress auto-ingress-web-http''])"
    unfolding manage_ingress_upsert [OF present obj]
    by (simp add: create_or_patch_def mem_api_def nm)
  have conflict: "create_namespaced_ingress mem_api ''ns1'' obj [obj]
       = (Inl (ApiException 409 ''Conflict''), [obj])"
    by (simp add: mem_api_def same_object_def nm ns)
  have patch: "patch_namespaced_ingress mem_api (meta_name (metadata obj)) ''ns1'' obj [obj]
       = (Inr (), [obj])"
    by (simp add: mem_api_def same_object_def nm ns)
  have second: "manage_ingress mem_api ?svc ''web'' ''ns1'' ''uid-1'' ?anns [obj]
       = (Inr (), [obj],
          [CreateCall ''ns1'' obj, PatchCall ''auto-ingress-web-http'' ''ns1'' obj,
           Info ServiceMeta ''IngressPatched'' ''Updated ingress auto-ingress-web-http''])"
    using conflict_falls_back_to_patch [OF present obj conflict patch] by (simp add: nm)
  from obj nm first conflict second show ?thesis by blast
qed

text \<open>
  C6, where the code departs from it: an \<^verbatim>\<open>ApiException\<close> of the fallback patch
  leaves the create and update handler as it is, and so does an \<^verbatim>\<open>ApiException\<close> of
  the listing in the delete handler; neither becomes a \<^verbatim>\<open>TemporaryError\<close>.
\<close>

theorem api_failures_escape:
  "outcome (manage_ingress
      (canned_api (Inr []) (Inl (ApiException 409 ''Conflict''))
         (Inl (ApiException 500 ''Internal Server Error'')) (Inr ()))
      \<lparr>service_ports = Some [[(''name'', PStr ''http''), (''port'', PInt 80), (''targetPort'', PInt 8080)]]\<rparr>
      ''web'' ''ns1'' ''uid-1'' (Some [(''auto-ingress'', ''/app'')]) ())
     = Inl (ApiException 500 ''Internal Server Error'')
   \<and> outcome (cleanup_ingress
      (canned_api (Inl (ApiException 503 ''Service Unavailable'')) (Inr ()) (Inr ()) (Inr ()))
      ''web'' ''ns1'' ())
     = Inl (ApiException 503 ''Service Unavailable'')"
proof
  have present: "map_of (case Some [(''auto-ingress'', ''/app'')] of None \<Rightarrow> [] | Some a \<Rightarrow> a)
      AUTO_INGRESS_ANNOTATION = Some ''/app''"
    by (simp add: AUTO_INGRESS_ANNOTATION_def)
  show "outcome (manage_ingress
      (canned_api (Inr []) (Inl (ApiException 409 ''Conflict''))
         (Inl (ApiException 500 ''Internal Server Error'')) (Inr ()))
      \<lparr>service_ports = Some [[(''name'', PStr ''http''), (''port'', PInt 80), (''targetPort'', PInt 8080)]]\<rparr>
      ''web'' ''ns1'' ''uid-1'' (Some [(''auto-ingress'', ''/app'')]) ())
     = Inl (ApiException 500 ''Internal Server Error'')"
    unfolding manage_ingress_upsert [OF present desired_ingress_web]
    by (simp add: create_or_patch_def canned_api_def outcome_def)
next
  show "outcome (cleanup_ingress
      (canned_api (Inl (ApiException 503 ''Service Unavailable'')) (Inr ()) (Inr ()) (Inr ()))
      ''web'' ''ns1'' ())
     = Inl (ApiException 503 ''Service Unavailable'')"
    by (simp add: cleanup_ingress_def canned_api_def outcome_def)
qed

text \<open>
  C9. Every Ingress the create and update handler submits to the cluster, in a create
  or in a patch call, carries exactly one owner reference: \<^verbatim>\<open>v1\<close>, \<^verbatim>\<open>Service\<close>, the
  Service's name, the uid of the event, controller and blockOwnerDeletion true. The
  delete handler submits no Ingress.
\<close>

theorem submitted_owner_reference:
  "(\<forall>ev \<in> set (events (manage_ingress api service name namespace uid annotations s)).
      \<forall>obj. submitted ev = Some obj \<longrightarrow>
        meta_owner_references (metadata obj) =
          [\<lparr>ref_api_version = ''v1'', ref_kind = ''Service'', ref_name = name, ref_uid = uid,
            ref_controller = True, ref_block_owner_deletion = True\<rparr>])
   \<and> (\<forall>ev \<in> set (events (cleanup_ingress api name namespace s)). submitted ev = None)"
proof (intro conjI ballI allI impI)
  fix ev obj
  assume ev: "ev \<in> set (events (manage_ingress api service name namespace uid annotations s))"
     and sub: "submitted ev = Some obj"
  show "meta_owner_references (metadata obj) =
          [\<lparr>ref_api_version = ''v1'', ref_kind = ''Service'', ref_name = name, ref_uid = uid,
            ref_controller = True, ref_block_owner_deletion = True\<rparr>]"
  proof (cases "map_of (case annotations of None \<Rightarrow> [] | Some a \<Rightarrow> a) AUTO_INGRESS_ANNOTATION")
    case None
    obtain l s1 where l: "list_namespaced_ingress api namespace s = (l, s1)"
      by (cases "list_namespaced_ingress api namespace s")
    show ?thesis
    proof (cases l)
      case (Inl e)
      with None l ev sub show ?thesis
        by (simp add: manage_ingress_def events_def)
    next
      case (Inr ingresses)
      obtain r s2 evs where d: "delete_family api
             (\<lambda>ing. kopf_info ServiceMeta ''IngressDeleted'' (''Deleted '' @ meta_name (metadata ing)))
             (ingress_name_prefix name) namespace ingresses s1 = (r, s2, evs)"
        by (cases "delete_family api
             (\<lambda>ing. kopf_info ServiceMeta ''IngressDeleted'' (''Deleted '' @ meta_name (metadata ing)))
             (ingress_name_prefix name) namespace ingresses s1")
      from delete_family_submits_nothing [OF _ d] have "\<forall>ev \<in> set evs. submitted ev = None"
        by simp
      with ev sub manage_ingress_removal [OF None l [unfolded Inr] d] show ?thesis
        by (auto simp: events_def)
    qed
  next
    case (Some path)
    show ?thesis
    proof (cases "desired_ingress service name namespace uid path")
      case (Inl e)
      with Some ev show ?thesis
        by (simp add: manage_ingress_def events_def)
    next
      case (Inr desired)
      from ev have "ev \<in> set (snd (snd (create_or_patch api namespace desired s)))"
        unfolding manage_ingress_upsert [OF Some Inr] events_def .
      from create_or_patch_submits [OF this sub] desired_ingress_owner [OF Inr]
      show ?thesis by simp
    qed
  qed
next
  fix ev
  assume ev: "ev \<in> set (events (cleanup_ingress api name namespace s))"
  obtain l s1 where l: "list_namespaced_ingress api namespace s = (l, s1)"
    by (cases "list_namespaced_ingress api namespace s")
  show "submitted ev = None"
  proof (cases l)
    case (Inl e)
    with l ev show ?thesis
      by (auto simp: cleanup_ingress_def events_def)
  next
    case (Inr ingresses)
    obtain r s2 evs where d: "delete_family api
           (\<lambda>ing. kopf_info (IngressMeta (metadata ing)) ''IngressDeleted''
                     (''Deleted ingress '' @ meta_name (metadata ing)))
           (ingress_name_prefix name) namespace ingresses s1 = (r, s2, evs)"
      by (cases "delete_family api
           (\<lambda>ing. kopf_info (IngressMeta (metadata ing)) ''IngressDeleted''
                     (''Deleted ingress '' @ meta_name (metadata ing)))
           (ingress_name_prefix name) namespace ingresses s1")
    from delete_family_submits_nothing [OF _ d] have "\<forall>ev \<in> set evs. submitted ev = None"
      by simp
    with ev cleanup_ingress_removal [OF l [unfolded Inr] d] show ?thesis
      by (auto simp: events_def)
  qed
qed

theorem submitted_owner_reference_witness:
  "\<exists>obj rest.
     events (manage_ingress (canned_api (Inr []) (Inr ()) (Inr ()) (Inr ()))
       \<lparr>service_ports = Some [[(''name'', PStr ''http''), (''port'', PInt 80), (''targetPort'', PInt 8080)]]\<rparr>
       ''web'' ''ns1'' ''uid-1'' (Some [(''auto-ingress'', ''/app'')]) ())
       = CreateCall ''ns1'' obj # rest
     \<and> submitted (CreateCall ''ns1'' obj) = Some obj
     \<and> meta_owner_references (metadata obj) =
          [\<lparr>ref_api_version = ''v1'', ref_kind = ''Service'', ref_name = ''web'',
            ref_uid = ''uid-1'', ref_controller = True, ref_block_owner_deletion = True\<rparr>]"
proof -
  let ?run = "manage_ingress (canned_api (Inr []) (Inr ()) (Inr ()) (Inr ()))
       \<lparr>service_ports = Some [[(''name'', PStr ''http''), (''port'', PInt 80), (''targetPort'', PInt 8080)]]\<rparr>
       ''web'' ''ns1'' ''uid-1'' (Some [(''auto-ingress'', ''/app'')]) ()"
  have present: "map_of (case Some [(''auto-ingress'', ''/app'')] of None \<Rightarrow> [] | Some a \<Rightarrow> a)
      AUTO_INGRESS_ANNOTATION = Some ''/app''"
    by (simp add: AUTO_INGRESS_ANNOTATION_def)
  obtain obj where obj: "desired_ingress
       \<lparr>service_ports = Some [[(''name'', PStr ''http''), (''port'', PInt 80), (''targetPort'', PInt 8080)]]\<rparr>
       ''web'' ''ns1'' ''uid-1'' ''/app'' = Inr obj"
    using desired_ingress_web [of "''uid-1''"] by simp
  obtain rest where run: "events ?run = CreateCall ''ns1'' obj # rest"
    unfolding events_def manage_ingress_upsert [OF present obj]
    using create_or_patch_first
      [of "canned_api (Inr []) (Inr ()) (Inr ()) (Inr ())" "''ns1''" obj "()"]
    by blast
  then have "CreateCall ''ns1'' obj \<in> set (events ?run)" by simp
  with submitted_owner_reference
    [of "canned_api (Inr []) (Inr ()) (Inr ()) (Inr ())"
        "\<lparr>service_ports = Some [[(''name'', PStr ''http''), (''port'', PInt 80), (''targetPort'', PInt 8080)]]\<rparr>"
        "''web''" "''ns1''" "''uid-1''" "Some [(''auto-ingress'', ''/app'')]" "()"]
  have "meta_owner_references (metadata obj) =
          [\<lparr>ref_api_version = ''v1'', ref_kind = ''Service'', ref_name = ''web'',
            ref_uid = ''uid-1'', ref_controller = True, ref_block_owner_deletion = True\<rparr>]"
    by (metis submitted.simps(1))
  with run show ?thesis by simp
qed

end
